theory Spec2Isabelle
  imports Main "HOL-Library.Word"
begin

section \<open>AiMonitor_FHE: the contract's storage and entry points\<close>

text \<open>
  The Solidity contract \<open>AiMonitor_FHE\<close> (compiler \<open>^0.8.24\<close>, hence checked
  arithmetic) is embedded function by function. An entry point takes the storage and its
  arguments and returns either the error it reverts with or the storage it leaves.
  A reverted call leaves the storage as it was (\<open>exec\<close> below).

  Values of type \<open>uint256\<close> are natural numbers, with the overflow check written out
  where the source does arithmetic on them; \<open>uint32\<close> is a 32-bit word; a Solidity
  \<open>mapping\<close> is a total function whose unwritten slots hold the zero value of the
  value type.
\<close>

type_synonym uint32 = "32 word"
type_synonym uint256 = nat
type_synonym bytes = "8 word list"

subsection \<open>The FHE library\<close>

text \<open>
  Modelled from the spec: the library \<open>@fhevm/solidity\<close> (\<open>FHE.asEuint32\<close>,
  \<open>FHE.add\<close>, \<open>FHE.toBytes32\<close>, \<open>FHE.requestDecryption\<close>,
  \<open>FHE.checkSignatures\<close>) is not among the repository's sources. The spec calls a
  ciphertext an opaque handle that is never inspected and only composed additively, so a
  handle is a symbolic term: the zero handle of an unwritten storage slot, a handle
  supplied by a caller, the trivial encryption of a constant, or the sum of two handles.
  The request identifier that \<open>FHE.requestDecryption\<close> returns is chosen by the
  library, so it is an argument of the entry points that call it (the library call itself
  is taken to return); the verdict of \<open>FHE.checkSignatures\<close> is a parameter \<open>chk\<close>
  of the callbacks (\<open>False\<close> is the library's revert).

  The modifier \<open>onlyModelOwner\<close> of the source has the empty body \<open>_;\<close>, so it adds
  nothing to the entry points it decorates.
\<close>

datatype euint32 =
    ZeroHandle
  | InputHandle nat
  | TrivialEncrypt uint32
  | FheAdd euint32 euint32

definition FHE_asEuint32 :: "uint32 \<Rightarrow> euint32" where
  "FHE_asEuint32 v = TrivialEncrypt v"

definition FHE_add :: "euint32 \<Rightarrow> euint32 \<Rightarrow> euint32" where
  "FHE_add a b = FheAdd a b"

type_synonym checkSignatures = "uint256 \<Rightarrow> bytes \<Rightarrow> bytes \<Rightarrow> bool"

subsection \<open>Errors and events\<close>

datatype error =
    Revert string              \<comment> \<open>\<open>require(cond, msg)\<close> failed\<close>
  | Panic nat                  \<comment> \<open>compiler-inserted check; \<open>0x11\<close> is arithmetic overflow\<close>
  | InvalidKMSSignatures       \<comment> \<open>\<open>FHE.checkSignatures\<close> reverted\<close>
  | AbiDecodeFailure           \<comment> \<open>\<open>abi.decode\<close> reverted\<close>

datatype event =
    PredictionRecorded uint256 string uint256
  | PerformanceAnalysisRequested uint256
  | AlertGenerated uint256
  | PerformanceAlertDecrypted uint256

text \<open>The names the specification gives to the revert reasons of the source.\<close>

definition AlreadyAnalyzed :: error where
  "AlreadyAnalyzed = Revert ''Already analyzed''"

definition UnknownRequest :: error where
  "UnknownRequest = Revert ''Invalid request''"


definition InvalidProof :: error where
  "InvalidProof = InvalidKMSSignatures"

subsection \<open>Storage\<close>

record EncryptedPrediction =
  rec_id :: uint256
  encryptedInput :: euint32
  encryptedPrediction :: euint32
  encryptedGroundTruth :: euint32
  timestamp :: uint256
  modelId :: string

record PerformanceMetrics =
  encryptedAccuracy :: euint32
  encryptedDriftScore :: euint32
  encryptedErrorRate :: euint32

record DecryptedAlert =
  performanceScore :: uint32
  alertLevel :: string
  needsRetraining :: bool
  isRevealed :: bool

record AiMonitor_FHE =
  predictionCount :: uint256
  predictions :: "uint256 \<Rightarrow> EncryptedPrediction"
  modelPerformance :: "string \<Rightarrow> PerformanceMetrics"
  performanceAlerts :: "uint256 \<Rightarrow> DecryptedAlert"
  requestToPredictionId :: "uint256 \<Rightarrow> uint256"
  requestToModelId :: "uint256 \<Rightarrow> string"
  monitoredModels :: "string list"
  events :: "event list"

definition zero_prediction :: EncryptedPrediction where
  "zero_prediction =
     \<lparr>rec_id = 0, encryptedInput = ZeroHandle, encryptedPrediction = ZeroHandle,
      encryptedGroundTruth = ZeroHandle, timestamp = 0, modelId = []\<rparr>"

definition zero_metrics :: PerformanceMetrics where
  "zero_metrics =
     \<lparr>encryptedAccuracy = ZeroHandle, encryptedDriftScore = ZeroHandle,
      encryptedErrorRate = ZeroHandle\<rparr>"

definition zero_alert :: DecryptedAlert where
  "zero_alert =
     \<lparr>performanceScore = 0, alertLevel = [], needsRetraining = False, isRevealed = False\<rparr>"

text \<open>The storage of the freshly deployed contract: every slot is zero.\<close>

definition deployed :: AiMonitor_FHE where
  "deployed =
     \<lparr>predictionCount = 0,
      predictions = (\<lambda>_. zero_prediction),
      modelPerformance = (\<lambda>_. zero_metrics),
      performanceAlerts = (\<lambda>_. zero_alert),
      requestToPredictionId = (\<lambda>_. 0),
      requestToModelId = (\<lambda>_. []),
      monitoredModels = [],
      events = []\<rparr>"

subsection \<open>Checked arithmetic and ABI decoding\<close>

definition checked_add256 :: "uint256 \<Rightarrow> uint256 \<Rightarrow> error + uint256" where
  "checked_add256 a b = (if a + b < 2 ^ 256 then Inr (a + b) else Inl (Panic 17))"

definition checked_sub32 :: "uint32 \<Rightarrow> uint32 \<Rightarrow> error + uint32" where
  "checked_sub32 a b = (if b \<le> a then Inr (a - b) else Inl (Panic 17))"

definition checked_mul32 :: "uint32 \<Rightarrow> uint32 \<Rightarrow> error + uint32" where
  "checked_mul32 a b = (if unat a * unat b < 2 ^ 32 then Inr (a * b) else Inl (Panic 17))"

definition checked_div32 :: "uint32 \<Rightarrow> uint32 \<Rightarrow> error + uint32" where
  "checked_div32 a b = (if b = 0 then Inl (Panic 18) else Inr (a div b))"

text \<open>
  \<open>abi.decode(cleartexts, (uint32, uint32, uint32))\<close>: three big-endian 32-byte words;
  the decoder reverts on fewer than 96 bytes and on a word that is not a \<open>uint32\<close>,
  and ignores what follows the third word.
\<close>

definition be_nat :: "bytes \<Rightarrow> nat" where
  "be_nat bs = foldl (\<lambda>acc b. acc * 256 + unat b) 0 bs"

definition abi_decode_uint32x3 :: "bytes \<Rightarrow> (uint32 \<times> uint32 \<times> uint32) option" where
  "abi_decode_uint32x3 data =
     (if length data < 96 then None
      else
        let w0 = be_nat (take 32 data);
            w1 = be_nat (take 32 (drop 32 data));
            w2 = be_nat (take 32 (drop 64 data))
        in if w0 < 2 ^ 32 \<and> w1 < 2 ^ 32 \<and> w2 < 2 ^ 32
           then Some (of_nat w0, of_nat w1, of_nat w2)
           else None)"

subsection \<open>Private helpers of the contract\<close>

definition calculatePerformanceScore :: "uint32 \<Rightarrow> uint32 \<Rightarrow> uint32 \<Rightarrow> error + uint32" where
  "calculatePerformanceScore input prediction groundTruth =
     (case (if prediction > groundTruth then checked_sub32 prediction groundTruth
            else checked_sub32 groundTruth prediction) of
        Inl e \<Rightarrow> Inl e
      | Inr err \<Rightarrow>
          (case checked_mul32 err 100 of
             Inl e \<Rightarrow> Inl e
           | Inr scaled \<Rightarrow>
               (case checked_div32 scaled (if input > 0 then input else 1) of
                  Inl e \<Rightarrow> Inl e
                | Inr q \<Rightarrow> checked_sub32 100 q)))"

definition determineAlertLevel :: "uint32 \<Rightarrow> string" where
  "determineAlertLevel score =
     (if score < 50 then ''Critical''
      else if score < 70 then ''Warning''
      else if score < 85 then ''Notice''
      else ''Normal'')"

text \<open>
  The source compares \<open>keccak256(bytes(a)) == keccak256(bytes(b))\<close>; the hash is taken
  to be free of collisions, so the comparison is equality of the two strings.
\<close>

definition keccak256_eq :: "string \<Rightarrow> string \<Rightarrow> bool" where
  "keccak256_eq a b = (a = b)"

fun isModelMonitored_loop :: "string list \<Rightarrow> string \<Rightarrow> bool" where
  "isModelMonitored_loop [] m = False"
| "isModelMonitored_loop (x # xs) m =
     (if keccak256_eq x m then True else isModelMonitored_loop xs m)"

definition isModelMonitored :: "AiMonitor_FHE \<Rightarrow> string \<Rightarrow> bool" where
  "isModelMonitored s m = isModelMonitored_loop (monitoredModels s) m"

subsection \<open>Entry points\<close>

definition recordEncryptedPrediction ::
  "AiMonitor_FHE \<Rightarrow> string \<Rightarrow> euint32 \<Rightarrow> euint32 \<Rightarrow> euint32 \<Rightarrow> uint256 \<Rightarrow> error + AiMonitor_FHE"
where
  "recordEncryptedPrediction s mid input prediction groundTruth block_timestamp =
     (case checked_add256 (predictionCount s) 1 of
        Inl e \<Rightarrow> Inl e
      | Inr n \<Rightarrow>
          let s1 = s\<lparr>predictionCount := n\<rparr>;
              newId = predictionCount s1;
              s2 = s1\<lparr>predictions := (predictions s1)
                     (newId := \<lparr>rec_id = newId, encryptedInput = input,
                                encryptedPrediction = prediction,
                                encryptedGroundTruth = groundTruth,
                                timestamp = block_timestamp, modelId = mid\<rparr>)\<rparr>;
              s3 = s2\<lparr>performanceAlerts := (performanceAlerts s2)
                     (newId := \<lparr>performanceScore = 0, alertLevel = [],
                                needsRetraining = False, isRevealed = False\<rparr>)\<rparr>;
              s4 = (if \<not> isModelMonitored s3 mid
                    then s3\<lparr>monitoredModels := monitoredModels s3 @ [mid],
                            modelPerformance := (modelPerformance s3)
                              (mid := \<lparr>encryptedAccuracy = FHE_asEuint32 0,
                                       encryptedDriftScore = FHE_asEuint32 0,
                                       encryptedErrorRate = FHE_asEuint32 0\<rparr>)\<rparr>
                    else s3)
          in Inr (s4\<lparr>events := events s4 @ [PredictionRecorded newId mid block_timestamp]\<rparr>))"

text \<open>\<open>reqId\<close> is the identifier \<open>FHE.requestDecryption\<close> returns for this call.\<close>

definition requestPerformanceAnalysis ::
  "AiMonitor_FHE \<Rightarrow> uint256 \<Rightarrow> uint256 \<Rightarrow> error + AiMonitor_FHE"
where
  "requestPerformanceAnalysis s predictionId reqId =
     (if isRevealed (performanceAlerts s predictionId) then Inl (Revert ''Already analyzed'')
      else
        let s1 = s\<lparr>requestToPredictionId := (requestToPredictionId s)(reqId := predictionId)\<rparr>
        in Inr (s1\<lparr>events := events s1 @ [PerformanceAnalysisRequested predictionId]\<rparr>))"

definition processPerformanceAnalysis ::
  "checkSignatures \<Rightarrow> AiMonitor_FHE \<Rightarrow> uint256 \<Rightarrow> bytes \<Rightarrow> bytes \<Rightarrow> error + AiMonitor_FHE"
where
  "processPerformanceAnalysis chk s requestId cleartexts proof =
     (let predictionId = requestToPredictionId s requestId in
      if predictionId = 0 then Inl (Revert ''Invalid request'')
      else
        let alert = performanceAlerts s predictionId in
        if isRevealed alert then Inl (Revert ''Already processed'')
        else if \<not> chk requestId cleartexts proof then Inl InvalidKMSSignatures
        else
          (case abi_decode_uint32x3 cleartexts of
             None \<Rightarrow> Inl AbiDecodeFailure
           | Some (input, prediction, groundTruth) \<Rightarrow>
               (case calculatePerformanceScore input prediction groundTruth of
                  Inl e \<Rightarrow> Inl e
                | Inr score \<Rightarrow>
                    let a1 = alert\<lparr>performanceScore := score\<rparr>;
                        a2 = a1\<lparr>alertLevel := determineAlertLevel (performanceScore a1)\<rparr>;
                        a3 = a2\<lparr>needsRetraining := (performanceScore a2 < 60)\<rparr>;
                        a4 = a3\<lparr>isRevealed := True\<rparr>;
                        s1 = s\<lparr>performanceAlerts := (performanceAlerts s)(predictionId := a4)\<rparr>
                    in Inr (s1\<lparr>events := events s1 @ [PerformanceAlertDecrypted predictionId]\<rparr>))))"

definition updateModelMetrics ::
  "AiMonitor_FHE \<Rightarrow> string \<Rightarrow> euint32 \<Rightarrow> euint32 \<Rightarrow> euint32 \<Rightarrow> error + AiMonitor_FHE"
where
  "updateModelMetrics s mid accuracy drift errorRate =
     (let metrics = modelPerformance s mid;
          m1 = metrics\<lparr>encryptedAccuracy := FHE_add (encryptedAccuracy metrics) accuracy\<rparr>;
          m2 = m1\<lparr>encryptedDriftScore := FHE_add (encryptedDriftScore m1) drift\<rparr>;
          m3 = m2\<lparr>encryptedErrorRate := FHE_add (encryptedErrorRate m2) errorRate\<rparr>
      in Inr (s\<lparr>modelPerformance := (modelPerformance s)(mid := m3)\<rparr>))"

definition requestModelMetricsDecryption ::
  "AiMonitor_FHE \<Rightarrow> string \<Rightarrow> uint256 \<Rightarrow> error + AiMonitor_FHE"
where
  "requestModelMetricsDecryption s mid reqId =
     Inr (s\<lparr>requestToModelId := (requestToModelId s)(reqId := mid)\<rparr>)"

definition decryptModelMetrics ::
  "checkSignatures \<Rightarrow> AiMonitor_FHE \<Rightarrow> uint256 \<Rightarrow> bytes \<Rightarrow> bytes \<Rightarrow> error + AiMonitor_FHE"
where
  "decryptModelMetrics chk s requestId cleartexts proof =
     (let mid = requestToModelId s requestId in
      if \<not> length mid > 0 then Inl (Revert ''Invalid request'')
      else if \<not> chk requestId cleartexts proof then Inl InvalidKMSSignatures
      else
        (case abi_decode_uint32x3 cleartexts of
           None \<Rightarrow> Inl AbiDecodeFailure
         | Some (accuracy, drift, errorRate) \<Rightarrow> Inr s))"

definition getDecryptedAlert :: "AiMonitor_FHE \<Rightarrow> uint256 \<Rightarrow> uint32 \<times> string \<times> bool \<times> bool" where
  "getDecryptedAlert s predictionId =
     (let a = performanceAlerts s predictionId
      in (performanceScore a, alertLevel a, needsRetraining a, isRevealed a))"

subsection \<open>Transactions\<close>

text \<open>
  A transaction is one external call. When the call reverts, the storage (and the event
  log) is what it was before the call; a sequence of transactions is run from left to
  right.
\<close>

datatype call =
    RecordEncryptedPrediction string euint32 euint32 euint32 uint256
  | RequestPerformanceAnalysis uint256 uint256
  | ProcessPerformanceAnalysis uint256 bytes bytes
  | UpdateModelMetrics string euint32 euint32 euint32
  | RequestModelMetricsDecryption string uint256
  | DecryptModelMetrics uint256 bytes bytes

fun outcome :: "checkSignatures \<Rightarrow> AiMonitor_FHE \<Rightarrow> call \<Rightarrow> error + AiMonitor_FHE" where
  "outcome chk s (RecordEncryptedPrediction m i p g t) = recordEncryptedPrediction s m i p g t"
| "outcome chk s (RequestPerformanceAnalysis pid rid) = requestPerformanceAnalysis s pid rid"
| "outcome chk s (ProcessPerformanceAnalysis rid ct pf) = processPerformanceAnalysis chk s rid ct pf"
| "outcome chk s (UpdateModelMetrics m a d e) = updateModelMetrics s m a d e"
| "outcome chk s (RequestModelMetricsDecryption m rid) = requestModelMetricsDecryption s m rid"
| "outcome chk s (DecryptModelMetrics rid ct pf) = decryptModelMetrics chk s rid ct pf"

definition exec :: "checkSignatures \<Rightarrow> AiMonitor_FHE \<Rightarrow> call \<Rightarrow> AiMonitor_FHE" where
  "exec chk s c = (case outcome chk s c of Inl e \<Rightarrow> s | Inr s' \<Rightarrow> s')"

definition run :: "checkSignatures \<Rightarrow> AiMonitor_FHE \<Rightarrow> call list \<Rightarrow> AiMonitor_FHE" where
  "run chk s cs = foldl (exec chk) s cs"

subsection \<open>Sample inputs\<close>

text \<open>
  Cleartexts for the callbacks: the ABI encoding of three \<open>uint32\<close> values below 256
  (each a 32-byte word whose last byte is the value).
\<close>

definition word_of_byte :: "8 word \<Rightarrow> bytes" where
  "word_of_byte b = replicate 31 0 @ [b]"

definition encode3 :: "8 word \<Rightarrow> 8 word \<Rightarrow> 8 word \<Rightarrow> bytes" where
  "encode3 a b c = word_of_byte a @ word_of_byte b @ word_of_byte c"

text \<open>A signature check that accepts everything, and one that accepts only the proof \<open>[1]\<close>.\<close>

definition accept_all :: checkSignatures where
  "accept_all requestId cleartexts proof = True"

definition accept_one :: checkSignatures where
  "accept_one requestId cleartexts proof = (proof = [1])"

text \<open>One record of model \<open>m1\<close> with an analysis request \<open>7\<close> in flight.\<close>

definition trace_pending :: "call list" where
  "trace_pending =
     [RecordEncryptedPrediction ''m1'' (InputHandle 1) (InputHandle 2) (InputHandle 3) 1000,
      RequestPerformanceAnalysis 1 7]"

definition state_pending :: AiMonitor_FHE where
  "state_pending = run accept_all deployed trace_pending"

text \<open>The same, after the callback has delivered input 100, prediction 90, ground truth 92.\<close>

definition state_revealed :: AiMonitor_FHE where
  "state_revealed =
     exec accept_all state_pending (ProcessPerformanceAnalysis 7 (encode3 100 90 92) [])"



text \<open>Later transactions on the revealed sample state.\<close>

definition trace_later :: "call list" where
  "trace_later =
     [RequestPerformanceAnalysis 1 8,
      ProcessPerformanceAnalysis 8 (encode3 10 80 70) [],
      RecordEncryptedPrediction ''m2'' (InputHandle 4) (InputHandle 5) (InputHandle 6) 2000,
      UpdateModelMetrics ''m1'' (InputHandle 7) (InputHandle 8) (InputHandle 9),
      ProcessPerformanceAnalysis 7 (encode3 10 80 70) []]"

text \<open>
  The first submission for model \<open>m1\<close>, the first for model \<open>m2\<close>, and transactions
  that follow them.
\<close>

definition call_first :: call where
  "call_first =
     RecordEncryptedPrediction ''m1'' (InputHandle 1) (InputHandle 2) (InputHandle 3) 1000"

definition call_second :: call where
  "call_second =
     RecordEncryptedPrediction ''m2'' (InputHandle 4) (InputHandle 5) (InputHandle 6) 2000"

definition trace_other :: "call list" where
  "trace_other =
     [UpdateModelMetrics ''m1'' (InputHandle 7) (InputHandle 8) (InputHandle 9),
      RecordEncryptedPrediction ''m2'' (InputHandle 4) (InputHandle 5) (InputHandle 6) 2000,
      RequestPerformanceAnalysis 1 7,
      ProcessPerformanceAnalysis 7 (encode3 100 90 92) []]"

section \<open>Basic facts\<close>

lemmas entry_defs =
  recordEncryptedPrediction_def requestPerformanceAnalysis_def processPerformanceAnalysis_def
  updateModelMetrics_def requestModelMetricsDecryption_def decryptModelMetrics_def
  checked_add256_def


subsection \<open>Decoding\<close>

lemma foldl_be_zeros: "foldl (\<lambda>acc b. acc * 256 + unat b) 0 (replicate n (0::8 word)) = 0"
  by (induction n) simp_all

lemma be_nat_word_of_byte: "be_nat (word_of_byte b) = unat b"
  by (simp add: be_nat_def word_of_byte_def foldl_be_zeros)

lemma length_word_of_byte: "length (word_of_byte b) = 32"
  by (simp add: word_of_byte_def)

lemma unat_byte_lt: "unat (b::8 word) < 4294967296"
proof -
  have "unat b < 2 ^ 8" using unsigned_less [of b] by simp
  then show ?thesis by simp
qed

lemma abi_decode_encode3:
  "abi_decode_uint32x3 (encode3 a b c) = Some (of_nat (unat a), of_nat (unat b), of_nat (unat c))"
  by (simp add: abi_decode_uint32x3_def encode3_def length_word_of_byte
      be_nat_word_of_byte unat_byte_lt Let_def del: of_nat_unat)

subsection \<open>The score\<close>

lemma abs_diff_uint:
  "uint (if p > g then p - g else g - p :: uint32) = \<bar>uint p - uint g\<bar>"
  by (auto simp: uint_sub_if' word_less_def word_le_def not_less)

lemma abs_diff_checked:
  "(if p > g then checked_sub32 p g else checked_sub32 g p)
     = Inr (if p > g then p - g else g - p)"
  by (auto simp: checked_sub32_def word_less_def word_le_def)

lemma uint_divisor: "uint (if i > 0 then i else 1 :: uint32) = max (uint i) 1"
proof (cases "i = 0")
  case True
  then show ?thesis by simp
next
  case False
  then have "uint i \<noteq> 0" by (simp add: uint_0_iff)
  moreover have "0 \<le> uint i" by simp
  ultimately have "1 \<le> uint i" by linarith
  with False show ?thesis by (simp add: word_greater_zero_iff max_def)
qed

lemma divisor_nonzero: "(if i > 0 then i else 1 :: uint32) \<noteq> 0"
  by (auto simp: word_greater_zero_iff)

text \<open>
  The quotient the source computes when the multiplication does not overflow, read as
  an integer.
\<close>

lemma uint_quotient:
  fixes err d :: uint32
  assumes "unat err * unat (100::uint32) < 2 ^ 32"
  shows "uint ((err * 100) div d) = (uint err * 100) div uint d"
proof -
  have m: "unat (err * 100) = unat err * 100"
    using assms unat_mult_lem [of err 100] by simp
  have "unat ((err * 100) div d) = (unat err * 100) div unat d"
    by (simp add: unat_div m)
  then have "int (unat ((err * 100) div d)) = int (unat err * 100) div int (unat d)"
    by (simp only: zdiv_int)
  then show ?thesis by simp
qed

lemma calculatePerformanceScore_Inr:
  assumes "calculatePerformanceScore i p g = Inr sc"
  shows "uint sc = 100 - (\<bar>uint p - uint g\<bar> * 100) div max (uint i) 1 \<and> uint sc \<le> 100"
proof -
  define err where "err = (if p > g then p - g else g - p)"
  define d where "d = (if i > 0 then i else 1)"
  define q where "q = (err * 100) div d"
  have e: "uint err = \<bar>uint p - uint g\<bar>"
    unfolding err_def by (rule abs_diff_uint)
  have sub: "(if p > g then checked_sub32 p g else checked_sub32 g p) = Inr err"
    unfolding err_def by (rule abs_diff_checked)
  from assms sub have nov: "unat err * unat (100::uint32) < 2 ^ 32"
    by (auto simp: calculatePerformanceScore_def checked_mul32_def split: if_splits)
  have d0: "d \<noteq> 0"
    unfolding d_def by (rule divisor_nonzero)
  have du: "uint d = max (uint i) 1"
    unfolding d_def by (rule uint_divisor)
  from assms sub nov d0 have r: "checked_sub32 100 q = Inr sc"
    by (simp add: calculatePerformanceScore_def checked_mul32_def checked_div32_def d_def q_def)
  then have q100: "q \<le> 100" and sc: "sc = 100 - q"
    by (auto simp: checked_sub32_def split: if_splits)
  have uq: "uint q = (uint err * 100) div uint d"
    unfolding q_def using nov by (rule uint_quotient)
  have "unat q \<le> 100"
    using q100 by (simp add: word_le_nat_alt)
  moreover have "unat sc = 100 - unat q"
    using q100 sc by (simp add: unat_sub)
  ultimately have s1: "int (unat sc) = 100 - int (unat q)" and "int (unat sc) \<le> 100"
    by simp_all
  then have s2: "uint sc \<le> 100" by simp
  from s1 have "uint sc = 100 - (\<bar>uint p - uint g\<bar> * 100) div max (uint i) 1"
    by (simp add: uq e du)
  with s2 show ?thesis by blast
qed

subsection \<open>The analysis callback\<close>

lemma alert_overwritten:
  "(r::DecryptedAlert)\<lparr>performanceScore := a, alertLevel := b, needsRetraining := c, isRevealed := d\<rparr>
     = \<lparr>performanceScore = a, alertLevel = b, needsRetraining = c, isRevealed = d\<rparr>"
  by (cases r) simp

lemma processPerformanceAnalysis_Inr:
  assumes "processPerformanceAnalysis chk s rid ct pf = Inr s'"
  shows "\<exists>i p g sc.
           requestToPredictionId s rid \<noteq> 0
         \<and> \<not> isRevealed (performanceAlerts s (requestToPredictionId s rid))
         \<and> chk rid ct pf
         \<and> abi_decode_uint32x3 ct = Some (i, p, g)
         \<and> calculatePerformanceScore i p g = Inr sc
         \<and> s' = s\<lparr>performanceAlerts := (performanceAlerts s)
                    (requestToPredictionId s rid :=
                       \<lparr>performanceScore = sc, alertLevel = determineAlertLevel sc,
                        needsRetraining = (sc < 60), isRevealed = True\<rparr>),
                  events := events s @ [PerformanceAlertDecrypted (requestToPredictionId s rid)]\<rparr>"
  using assms
  by (auto simp: processPerformanceAnalysis_def Let_def alert_overwritten
      split: if_splits option.splits sum.splits)

lemma determineAlertLevel_uint:
  "determineAlertLevel sc =
     (if uint sc < 50 then ''Critical''
      else if uint sc < 70 then ''Warning''
      else if uint sc < 85 then ''Notice''
      else ''Normal'')"
  by (simp add: determineAlertLevel_def word_less_def)

subsection \<open>The sample states\<close>

lemma state_pending_fields:
  "predictionCount state_pending = Suc 0"
  "requestToPredictionId state_pending 7 = Suc 0"
  "performanceAlerts state_pending (Suc 0) = zero_alert"
  by (simp_all add: state_pending_def trace_pending_def run_def exec_def entry_defs
      isModelMonitored_def deployed_def zero_alert_def Let_def)

lemma score_100_90_92: "calculatePerformanceScore 100 90 92 = Inr 98"
  by (simp add: calculatePerformanceScore_def checked_sub32_def checked_mul32_def
      checked_div32_def)

lemma state_revealed_outcome:
  "processPerformanceAnalysis accept_all state_pending 7 (encode3 100 90 92) [] = Inr state_revealed"
proof -
  have "\<exists>t. processPerformanceAnalysis accept_all state_pending 7 (encode3 100 90 92) [] = Inr t"
    using score_100_90_92
    by (simp add: processPerformanceAnalysis_def state_pending_fields zero_alert_def
        accept_all_def abi_decode_encode3 Let_def)
  then show ?thesis
    by (auto simp: state_revealed_def exec_def)
qed

section \<open>The score, the alert level and the retraining flag (C1)\<close>

text \<open>
  Claim C1. When the analysis callback \<open>processPerformanceAnalysis\<close> succeeds on
  cleartexts that decode to \<open>(input, prediction, groundTruth)\<close>, the alert it stores for
  the request's record has, read as integers,
  \<open>score = 100 - (|prediction - groundTruth| * 100) div max input 1\<close>; its level is
  Critical below 50, Warning from 50 below 70, Notice from 70 below 85 and Normal from 85
  on; \<open>needsRetraining\<close> holds exactly when the score is below 60; and the alert is
  revealed.
\<close>

theorem completeAnalysis_alert:
  assumes "processPerformanceAnalysis chk s requestId cleartexts proof = Inr s'"
    and "abi_decode_uint32x3 cleartexts = Some (input, prediction, groundTruth)"
  shows "let a = performanceAlerts s' (requestToPredictionId s requestId);
             score = uint (performanceScore a)
         in score = 100 - (\<bar>uint prediction - uint groundTruth\<bar> * 100) div max (uint input) 1
          \<and> alertLevel a =
              (if score < 50 then ''Critical''
               else if score < 70 then ''Warning''
               else if score < 85 then ''Notice''
               else ''Normal'')
          \<and> needsRetraining a = (score < 60)
          \<and> isRevealed a"
proof -
  from processPerformanceAnalysis_Inr [OF assms(1)] assms(2)
  obtain sc where c: "calculatePerformanceScore input prediction groundTruth = Inr sc"
    and a: "performanceAlerts s' (requestToPredictionId s requestId) =
              \<lparr>performanceScore = sc, alertLevel = determineAlertLevel sc,
               needsRetraining = (sc < 60), isRevealed = True\<rparr>"
    by auto
  from calculatePerformanceScore_Inr [OF c]
  have "uint sc = 100 - (\<bar>uint prediction - uint groundTruth\<bar> * 100) div max (uint input) 1"
    by simp
  moreover have "(sc < 60) = (uint sc < 60)"
    by (simp add: word_less_def)
  ultimately show ?thesis
    unfolding Let_def a by (simp add: determineAlertLevel_uint)
qed

theorem completeAnalysis_alert_witness:
  "uint (performanceScore (performanceAlerts state_revealed 1)) = 98
   \<and> alertLevel (performanceAlerts state_revealed 1) = ''Normal''
   \<and> \<not> needsRetraining (performanceAlerts state_revealed 1)
   \<and> isRevealed (performanceAlerts state_revealed 1)"
  using completeAnalysis_alert [OF state_revealed_outcome, of 100 90 92]
  by (simp add: abi_decode_encode3 state_pending_fields Let_def)

section \<open>Transactions and what they leave unchanged\<close>

lemma exec_Inr: "outcome chk s c = Inr s' \<Longrightarrow> exec chk s c = s'"
  by (simp add: exec_def)

lemma exec_Inl: "outcome chk s c = Inl e \<Longrightarrow> exec chk s c = s"
  by (simp add: exec_def)

lemma run_Nil: "run chk s [] = s"
  by (simp add: run_def)

lemma run_Cons: "run chk s (c # cs) = run chk (exec chk s c) cs"
  by (simp add: run_def)

lemma predictionCount_exec: "predictionCount s \<le> predictionCount (exec chk s c)"
  by (cases c) (auto simp: exec_def entry_defs Let_def split: sum.splits if_splits option.splits)

lemma alerts_exec_revealed:
  "pid \<le> predictionCount s \<Longrightarrow> isRevealed (performanceAlerts s pid) \<Longrightarrow>
   performanceAlerts (exec chk s c) pid = performanceAlerts s pid"
  by (cases c) (auto simp: exec_def entry_defs Let_def split: sum.splits if_splits option.splits)

lemma alerts_run_revealed:
  "pid \<le> predictionCount s \<Longrightarrow> isRevealed (performanceAlerts s pid) \<Longrightarrow>
   performanceAlerts (run chk s cs) pid = performanceAlerts s pid"
proof (induction cs arbitrary: s)
  case Nil
  then show ?case by (simp add: run_Nil)
next
  case (Cons c cs)
  have a: "performanceAlerts (exec chk s c) pid = performanceAlerts s pid"
    using Cons.prems by (rule alerts_exec_revealed)
  have "pid \<le> predictionCount (exec chk s c)"
    using Cons.prems(1) predictionCount_exec [of s chk c] by simp
  moreover have "isRevealed (performanceAlerts (exec chk s c) pid)"
    using a Cons.prems(2) by simp
  ultimately have "performanceAlerts (run chk (exec chk s c) cs) pid
      = performanceAlerts (exec chk s c) pid"
    by (rule Cons.IH)
  with a show ?case by (simp add: run_Cons)
qed




lemma processPerformanceAnalysis_forged:
  "\<not> chk rid ct pf \<Longrightarrow> isl (processPerformanceAnalysis chk s rid ct pf)"
  by (simp add: processPerformanceAnalysis_def Let_def)

lemma calculatePerformanceScore_Inl:
  assumes "calculatePerformanceScore i p g = Inl e"
  shows "e = Panic 17"
proof -
  have d: "(if i > 0 then i else 1 :: uint32) \<noteq> 0"
    by (rule divisor_nonzero)
  from assms show ?thesis
    unfolding calculatePerformanceScore_def abs_diff_checked
    using d by (auto simp: checked_mul32_def checked_div32_def checked_sub32_def
        split: if_splits)
qed

lemma processPerformanceAnalysis_InvalidProof:
  assumes "processPerformanceAnalysis chk s rid ct pf = Inl InvalidKMSSignatures"
  shows "requestToPredictionId s rid \<noteq> 0 \<and>
         \<not> isRevealed (performanceAlerts s (requestToPredictionId s rid))"
  using assms
  by (auto simp: processPerformanceAnalysis_def Let_def split: if_splits)

lemma processPerformanceAnalysis_succeeds:
  assumes "requestToPredictionId s rid \<noteq> 0"
    and "\<not> isRevealed (performanceAlerts s (requestToPredictionId s rid))"
    and "chk rid ct pf"
    and "abi_decode_uint32x3 ct = Some (i, p, g)"
    and "calculatePerformanceScore i p g = Inr sc"
  shows "processPerformanceAnalysis chk s rid ct pf =
           Inr (s\<lparr>performanceAlerts := (performanceAlerts s)
                    (requestToPredictionId s rid :=
                       \<lparr>performanceScore = sc, alertLevel = determineAlertLevel sc,
                        needsRetraining = (sc < 60), isRevealed = True\<rparr>),
                  events := events s @ [PerformanceAlertDecrypted (requestToPredictionId s rid)]\<rparr>)"
  using assms by (simp add: processPerformanceAnalysis_def Let_def alert_overwritten)

section \<open>A failed analysis callback (C2)\<close>

text \<open>
  Claim C2. When the analysis callback fails, for whatever reason, the transaction leaves
  the whole storage as it was: every alert, and the correlation of the request with its
  record. A proof that does not verify always makes the callback fail, so it never
  reveals an alert. After a failure with \<open>InvalidProof\<close> the request is still live: the
  same call with a proof that verifies (and cleartexts whose score can be computed)
  succeeds and reveals the alert of the request's record.
\<close>

theorem failed_completeAnalysis_no_effect:
  "(processPerformanceAnalysis chk s requestId cleartexts proof = Inl e \<longrightarrow>
      exec chk s (ProcessPerformanceAnalysis requestId cleartexts proof) = s
    \<and> (e = InvalidProof \<longrightarrow> chk requestId cleartexts proof' \<longrightarrow>
       abi_decode_uint32x3 cleartexts = Some (input, prediction, groundTruth) \<longrightarrow>
       calculatePerformanceScore input prediction groundTruth = Inr score \<longrightarrow>
         \<not> isl (processPerformanceAnalysis chk
                  (exec chk s (ProcessPerformanceAnalysis requestId cleartexts proof))
                  requestId cleartexts proof')
       \<and> isRevealed (performanceAlerts
            (exec chk (exec chk s (ProcessPerformanceAnalysis requestId cleartexts proof))
               (ProcessPerformanceAnalysis requestId cleartexts proof'))
            (requestToPredictionId s requestId))))
   \<and> (\<not> chk requestId cleartexts proof \<longrightarrow>
        isl (processPerformanceAnalysis chk s requestId cleartexts proof))"
proof (intro conjI impI)
  assume f: "processPerformanceAnalysis chk s requestId cleartexts proof = Inl e"
  then show same: "exec chk s (ProcessPerformanceAnalysis requestId cleartexts proof) = s"
    by (simp add: exec_def)
  assume "e = InvalidProof"
    and ok: "chk requestId cleartexts proof'"
    and dec: "abi_decode_uint32x3 cleartexts = Some (input, prediction, groundTruth)"
    and sc: "calculatePerformanceScore input prediction groundTruth = Inr score"
  with f have "processPerformanceAnalysis chk s requestId cleartexts proof = Inl InvalidKMSSignatures"
    by (simp add: InvalidProof_def)
  then have live: "requestToPredictionId s requestId \<noteq> 0"
    and unrevealed: "\<not> isRevealed (performanceAlerts s (requestToPredictionId s requestId))"
    using processPerformanceAnalysis_InvalidProof by blast+
  note retry = processPerformanceAnalysis_succeeds
    [where chk = chk and pf = proof', OF live unrevealed ok dec sc]
  show "\<not> isl (processPerformanceAnalysis chk
                  (exec chk s (ProcessPerformanceAnalysis requestId cleartexts proof))
                  requestId cleartexts proof')"
    unfolding same by (simp add: retry)
  show "isRevealed (performanceAlerts
            (exec chk (exec chk s (ProcessPerformanceAnalysis requestId cleartexts proof))
               (ProcessPerformanceAnalysis requestId cleartexts proof'))
            (requestToPredictionId s requestId))"
    unfolding same by (simp add: exec_def retry)
next
  assume "\<not> chk requestId cleartexts proof"
  then show "isl (processPerformanceAnalysis chk s requestId cleartexts proof)"
    by (rule processPerformanceAnalysis_forged)
qed

theorem failed_completeAnalysis_no_effect_witness:
  "processPerformanceAnalysis accept_one state_pending 7 (encode3 100 90 92) [] = Inl InvalidProof
   \<and> exec accept_one state_pending (ProcessPerformanceAnalysis 7 (encode3 100 90 92) []) = state_pending
   \<and> isRevealed (performanceAlerts
        (exec accept_one
           (exec accept_one state_pending (ProcessPerformanceAnalysis 7 (encode3 100 90 92) []))
           (ProcessPerformanceAnalysis 7 (encode3 100 90 92) [1])) 1)"
proof -
  have f: "processPerformanceAnalysis accept_one state_pending 7 (encode3 100 90 92) []
             = Inl InvalidProof"
    by (simp add: processPerformanceAnalysis_def state_pending_fields zero_alert_def
        accept_one_def InvalidProof_def Let_def)
  have ok: "accept_one 7 (encode3 100 90 92) [1]"
    by (simp add: accept_one_def)
  have dec: "abi_decode_uint32x3 (encode3 100 90 92) = Some (100, 90, 92)"
    by (simp add: abi_decode_encode3)
  from failed_completeAnalysis_no_effect
    [of accept_one state_pending 7 "encode3 100 90 92" "[]" InvalidProof "[1]" 100 90 92 98]
    f ok dec score_100_90_92
  show ?thesis by (auto simp: state_pending_fields)
qed

subsection \<open>More on the sample states\<close>

lemma processPerformanceAnalysis_Inr_fields:
  assumes "processPerformanceAnalysis chk s rid ct pf = Inr s'"
  shows "predictionCount s' = predictionCount s"
    and "requestToPredictionId s' = requestToPredictionId s"
    and "isRevealed (performanceAlerts s' (requestToPredictionId s rid))"
  using processPerformanceAnalysis_Inr [OF assms] by auto

lemma state_revealed_fields:
  "predictionCount state_revealed = Suc 0"
  "requestToPredictionId state_revealed 7 = Suc 0"
  "isRevealed (performanceAlerts state_revealed (Suc 0))"
  using processPerformanceAnalysis_Inr_fields [OF state_revealed_outcome]
  by (simp_all add: state_pending_fields)


lemma decryptModelMetrics_Inr:
  "decryptModelMetrics chk s rid ct pf = Inr s' \<Longrightarrow> s' = s"
  by (auto simp: decryptModelMetrics_def Let_def split: if_splits option.splits)

section \<open>Replayed callbacks (C3)\<close>




section \<open>Requesting an analysis (C4)\<close>

text \<open>
  Claim C4, as amended. \<open>requestPerformanceAnalysis\<close> checks one thing only: on a
  record whose alert is revealed it fails with \<open>Already analyzed\<close> and the storage is
  unchanged; on any other identifier it succeeds, whether or not a request for that
  record is already in flight, and writes nothing but the correlation of the new request
  (and its event).
\<close>

theorem requestAnalysis_guard:
  "requestPerformanceAnalysis s predictionId reqId =
     (if isRevealed (performanceAlerts s predictionId) then Inl AlreadyAnalyzed
      else Inr (s\<lparr>requestToPredictionId := (requestToPredictionId s)(reqId := predictionId),
                  events := events s @ [PerformanceAnalysisRequested predictionId]\<rparr>))
   \<and> exec chk s (RequestPerformanceAnalysis predictionId reqId) =
     (if isRevealed (performanceAlerts s predictionId) then s
      else s\<lparr>requestToPredictionId := (requestToPredictionId s)(reqId := predictionId),
             events := events s @ [PerformanceAnalysisRequested predictionId]\<rparr>)"
  by (simp add: requestPerformanceAnalysis_def exec_def AlreadyAnalyzed_def Let_def)

theorem requestAnalysis_guard_witness:
  "requestPerformanceAnalysis state_revealed 1 8 = Inl AlreadyAnalyzed
   \<and> exec accept_all state_revealed (RequestPerformanceAnalysis 1 8) = state_revealed
   \<and> requestToPredictionId (exec accept_all state_pending (RequestPerformanceAnalysis 1 8)) 8 = 1"
  using requestAnalysis_guard [of state_revealed 1 8 accept_all]
    requestAnalysis_guard [of state_pending 1 8 accept_all]
  by (simp add: state_revealed_fields state_pending_fields zero_alert_def)

text \<open>
  The claim as stated fails: with request 7 for record 1 still in flight, a second
  request 8 for record 1 succeeds, and both are then live; and a request succeeds for
  identifier 5 in the freshly deployed contract, which stores no record.
\<close>

theorem requestAnalysis_guard_counterexample:
  "\<not> isl (requestPerformanceAnalysis state_pending 1 8)
   \<and> requestToPredictionId (exec accept_all state_pending (RequestPerformanceAnalysis 1 8)) 7 = 1
   \<and> requestToPredictionId (exec accept_all state_pending (RequestPerformanceAnalysis 1 8)) 8 = 1
   \<and> exec accept_all state_pending (RequestPerformanceAnalysis 1 8) \<noteq> state_pending
   \<and> predictionCount deployed = 0
   \<and> \<not> isl (requestPerformanceAnalysis deployed 5 7)
   \<and> requestToPredictionId (exec accept_all deployed (RequestPerformanceAnalysis 5 7)) 7 = 5"
proof -
  have a: "\<not> isRevealed (performanceAlerts state_pending 1)"
    by (simp add: state_pending_fields zero_alert_def)
  have b: "\<not> isRevealed (performanceAlerts deployed 5)"
    by (simp add: deployed_def zero_alert_def)
  have c: "requestToPredictionId (exec accept_all state_pending (RequestPerformanceAnalysis 1 8)) 8
             \<noteq> requestToPredictionId state_pending 8"
    using a by (simp add: exec_def requestPerformanceAnalysis_def Let_def state_pending_def
        trace_pending_def run_def entry_defs isModelMonitored_def deployed_def)
  then have "exec accept_all state_pending (RequestPerformanceAnalysis 1 8) \<noteq> state_pending"
    by auto
  moreover have "predictionCount deployed = 0"
    by (simp add: deployed_def)
  ultimately show ?thesis
    using a b
    by (simp add: exec_def requestPerformanceAnalysis_def Let_def state_pending_fields)
qed

section \<open>Updating the aggregate of a model (C6)\<close>

lemma metrics_overwritten:
  "(r::PerformanceMetrics)\<lparr>encryptedAccuracy := a, encryptedDriftScore := b, encryptedErrorRate := c\<rparr>
     = \<lparr>encryptedAccuracy = a, encryptedDriftScore = b, encryptedErrorRate = c\<rparr>"
  by (cases r) simp

text \<open>
  Claim C6, as amended. \<open>updateModelMetrics\<close> has no check that the model is monitored
  and never fails: for every model identifier it adds the three deltas to that model's
  aggregate (to the zero handles of the unwritten slot when the model was never
  monitored) and leaves every other aggregate, the list of monitored models and the rest
  of the storage unchanged.
\<close>

theorem updateModelMetrics_any_model:
  "updateModelMetrics s mid accuracy drift errorRate =
     Inr (s\<lparr>modelPerformance := (modelPerformance s)
            (mid := \<lparr>encryptedAccuracy = FHE_add (encryptedAccuracy (modelPerformance s mid)) accuracy,
                     encryptedDriftScore = FHE_add (encryptedDriftScore (modelPerformance s mid)) drift,
                     encryptedErrorRate = FHE_add (encryptedErrorRate (modelPerformance s mid)) errorRate\<rparr>)\<rparr>)"
  by (simp add: updateModelMetrics_def Let_def metrics_overwritten)

text \<open>
  The claim as stated fails: in the freshly deployed contract model \<open>m1\<close> is not
  monitored, yet the update succeeds and changes the aggregate of \<open>m1\<close>.
\<close>

theorem updateModelMetrics_any_model_counterexample:
  "\<not> isModelMonitored deployed ''m1''
   \<and> \<not> isl (updateModelMetrics deployed ''m1'' (InputHandle 1) (InputHandle 2) (InputHandle 3))
   \<and> modelPerformance deployed ''m1'' = zero_metrics
   \<and> modelPerformance
        (exec accept_all deployed
           (UpdateModelMetrics ''m1'' (InputHandle 1) (InputHandle 2) (InputHandle 3))) ''m1''
       = \<lparr>encryptedAccuracy = FheAdd ZeroHandle (InputHandle 1),
          encryptedDriftScore = FheAdd ZeroHandle (InputHandle 2),
          encryptedErrorRate = FheAdd ZeroHandle (InputHandle 3)\<rparr>"
  by (simp add: isModelMonitored_def deployed_def updateModelMetrics_def exec_def Let_def
      zero_metrics_def FHE_add_def)

section \<open>The metrics decryption path (C9)\<close>

text \<open>
  Claim C9. \<open>requestModelMetricsDecryption\<close> always succeeds and writes only the
  correlation of the issued request with the model; \<open>decryptModelMetrics\<close>, whether it
  succeeds or reverts, writes nothing. So the request followed by its callback leaves
  every alert, every stored record and every aggregate as it was.
\<close>

theorem metrics_decryption_frame:
  "requestModelMetricsDecryption s mid reqId =
     Inr (s\<lparr>requestToModelId := (requestToModelId s)(reqId := mid)\<rparr>)
   \<and> exec chk s (RequestModelMetricsDecryption mid reqId) =
       s\<lparr>requestToModelId := (requestToModelId s)(reqId := mid)\<rparr>
   \<and> exec chk s (DecryptModelMetrics requestId cleartexts proof) = s
   \<and> run chk s [RequestModelMetricsDecryption mid reqId,
                 DecryptModelMetrics reqId cleartexts proof] =
       s\<lparr>requestToModelId := (requestToModelId s)(reqId := mid)\<rparr>"
proof -
  have d: "exec chk t (DecryptModelMetrics r cleartexts proof) = t" for t r
    by (auto simp: exec_def split: sum.splits dest: decryptModelMetrics_Inr)
  show ?thesis
    by (simp add: d run_Cons run_Nil) (simp add: exec_def requestModelMetricsDecryption_def)
qed

section \<open>The range of a revealed score (C5)\<close>

lemma run_snoc: "run chk s (cs @ [c]) = exec chk (run chk s cs) c"
  by (simp add: run_def)

lemma score_range_exec:
  assumes inv: "\<And>pid. isRevealed (performanceAlerts s pid) \<Longrightarrow>
                  uint (performanceScore (performanceAlerts s pid)) \<le> 100"
    and rev: "isRevealed (performanceAlerts (exec chk s c) pid)"
  shows "uint (performanceScore (performanceAlerts (exec chk s c) pid)) \<le> 100"
proof (cases "outcome chk s c")
  case (Inl e)
  then have "exec chk s c = s" by (rule exec_Inl)
  with inv rev show ?thesis by simp
next
  case (Inr s')
  then have ex: "exec chk s c = s'" by (rule exec_Inr)
  show ?thesis
  proof (cases c)
    case (ProcessPerformanceAnalysis rid ct pf)
    with Inr have "processPerformanceAnalysis chk s rid ct pf = Inr s'" by simp
    from processPerformanceAnalysis_Inr [OF this]
    obtain i p g sc where sc: "calculatePerformanceScore i p g = Inr sc"
      and s': "performanceAlerts s' = (performanceAlerts s)
                    (requestToPredictionId s rid :=
                       \<lparr>performanceScore = sc, alertLevel = determineAlertLevel sc,
                        needsRetraining = (sc < 60), isRevealed = True\<rparr>)"
      by auto
    from calculatePerformanceScore_Inr [OF sc] have "uint sc \<le> 100" by simp
    with inv rev show ?thesis
      unfolding ex s' by (cases "pid = requestToPredictionId s rid") simp_all
  next
    case (RecordEncryptedPrediction m i p g t)
    with Inr inv rev show ?thesis
      unfolding ex
      by (auto simp: entry_defs Let_def split: if_splits)
  next
    case (RequestPerformanceAnalysis x y)
    with Inr inv rev show ?thesis
      unfolding ex by (auto simp: entry_defs Let_def split: if_splits)
  next
    case (UpdateModelMetrics m a d e)
    with Inr inv rev show ?thesis
      unfolding ex by (auto simp: entry_defs Let_def split: if_splits)
  next
    case (RequestModelMetricsDecryption m r)
    with Inr inv rev show ?thesis
      unfolding ex by (auto simp: entry_defs Let_def split: if_splits)
  next
    case (DecryptModelMetrics r ct pf)
    with Inr have "s' = s" by (auto dest: decryptModelMetrics_Inr)
    with inv rev show ?thesis
      unfolding ex by simp
  qed
qed

lemma score_range_run:
  "isRevealed (performanceAlerts (run chk deployed cs) pid) \<Longrightarrow>
   uint (performanceScore (performanceAlerts (run chk deployed cs) pid)) \<le> 100"
proof (induction cs arbitrary: pid rule: rev_induct)
  case Nil
  then show ?case by (simp add: run_Nil deployed_def zero_alert_def)
next
  case (snoc c cs)
  show ?case
    unfolding run_snoc
    by (rule score_range_exec [OF snoc.IH]) (use snoc.prems in \<open>simp_all add: run_snoc\<close>)
qed

lemma calculatePerformanceScore_negative:
  assumes "100 < (\<bar>uint p - uint g\<bar> * 100) div max (uint i) 1"
  shows "calculatePerformanceScore i p g = Inl (Panic 17)"
proof (cases "calculatePerformanceScore i p g")
  case (Inl e)
  then show ?thesis using calculatePerformanceScore_Inl [OF Inl] by simp
next
  case (Inr sc)
  from calculatePerformanceScore_Inr [OF Inr] assms have "uint sc < 0" by simp
  moreover have "0 \<le> uint sc" by simp
  ultimately show ?thesis by simp
qed

lemma processPerformanceAnalysis_no_score:
  assumes "abi_decode_uint32x3 ct = Some (i, p, g)"
    and "calculatePerformanceScore i p g = Inl e"
  shows "isl (processPerformanceAnalysis chk s rid ct pf)"
  using assms by (simp add: processPerformanceAnalysis_def Let_def)

text \<open>
  Claim C5. In every storage reachable from deployment, the score of a revealed alert
  lies between 0 and 100. The source does not clamp: the subtraction \<open>100 - q\<close> is
  checked, so when the quotient exceeds 100 (the score of the formula would be negative)
  \<open>calculatePerformanceScore\<close> panics with code \<open>0x11\<close>, the callback reverts, and no
  value is recorded; this is what happens for input 0, prediction 5, ground truth 0.
\<close>

theorem revealed_score_range:
  "(isRevealed (performanceAlerts (run chk deployed cs) pid) \<longrightarrow>
      0 \<le> uint (performanceScore (performanceAlerts (run chk deployed cs) pid))
    \<and> uint (performanceScore (performanceAlerts (run chk deployed cs) pid)) \<le> 100)
   \<and> (abi_decode_uint32x3 cleartexts = Some (input, prediction, groundTruth) \<longrightarrow>
      100 < (\<bar>uint prediction - uint groundTruth\<bar> * 100) div max (uint input) 1 \<longrightarrow>
        calculatePerformanceScore input prediction groundTruth = Inl (Panic 17)
      \<and> isl (processPerformanceAnalysis chk s requestId cleartexts proof)
      \<and> exec chk s (ProcessPerformanceAnalysis requestId cleartexts proof) = s)
   \<and> calculatePerformanceScore 0 5 0 = Inl (Panic 17)"
proof (intro conjI impI)
  assume "isRevealed (performanceAlerts (run chk deployed cs) pid)"
  then show "uint (performanceScore (performanceAlerts (run chk deployed cs) pid)) \<le> 100"
    by (rule score_range_run)
next
  show "0 \<le> uint (performanceScore (performanceAlerts (run chk deployed cs) pid))"
    by simp
next
  assume dec: "abi_decode_uint32x3 cleartexts = Some (input, prediction, groundTruth)"
    and neg: "100 < (\<bar>uint prediction - uint groundTruth\<bar> * 100) div max (uint input) 1"
  from neg show p: "calculatePerformanceScore input prediction groundTruth = Inl (Panic 17)"
    by (rule calculatePerformanceScore_negative)
  from dec p show f: "isl (processPerformanceAnalysis chk s requestId cleartexts proof)"
    by (rule processPerformanceAnalysis_no_score)
  then show "exec chk s (ProcessPerformanceAnalysis requestId cleartexts proof) = s"
    by (cases "processPerformanceAnalysis chk s requestId cleartexts proof")
       (simp_all add: exec_def)
next
  show "calculatePerformanceScore 0 5 0 = Inl (Panic 17)"
    by (simp add: calculatePerformanceScore_def checked_sub32_def checked_mul32_def
      checked_div32_def)
qed

lemma state_revealed_run:
  "state_revealed = run accept_all deployed
     (trace_pending @ [ProcessPerformanceAnalysis 7 (encode3 100 90 92) []])"
  by (simp add: state_revealed_def state_pending_def run_snoc)

theorem revealed_score_range_witness:
  "isRevealed (performanceAlerts state_revealed 1)
   \<and> uint (performanceScore (performanceAlerts state_revealed 1)) \<le> 100
   \<and> abi_decode_uint32x3 (encode3 0 5 0) = Some (0, 5, 0)
   \<and> isl (processPerformanceAnalysis accept_all state_pending 7 (encode3 0 5 0) [])
   \<and> exec accept_all state_pending (ProcessPerformanceAnalysis 7 (encode3 0 5 0) [])
       = state_pending"
  using revealed_score_range
    [of accept_all "trace_pending @ [ProcessPerformanceAnalysis 7 (encode3 100 90 92) []]" 1
        "encode3 0 5 0" 0 5 0 state_pending 7 "[]"]
  by (simp add: state_revealed_run [symmetric] state_revealed_fields abi_decode_encode3)

section \<open>Alerts are written once (C7)\<close>

lemma alerts_exec_changed:
  assumes "pid \<le> predictionCount s"
    and "performanceAlerts (exec chk s c) pid \<noteq> performanceAlerts s pid"
  shows "\<not> isRevealed (performanceAlerts s pid)
       \<and> (\<exists>rid ct pf i p g sc.
             c = ProcessPerformanceAnalysis rid ct pf
           \<and> requestToPredictionId s rid = pid
           \<and> abi_decode_uint32x3 ct = Some (i, p, g)
           \<and> calculatePerformanceScore i p g = Inr sc
           \<and> performanceAlerts (exec chk s c) pid =
               \<lparr>performanceScore = sc, alertLevel = determineAlertLevel sc,
                needsRetraining = (sc < 60), isRevealed = True\<rparr>)"
proof (cases "outcome chk s c")
  case (Inl e)
  then have "exec chk s c = s" by (rule exec_Inl)
  with assms(2) show ?thesis by simp
next
  case (Inr s')
  then have ex: "exec chk s c = s'" by (rule exec_Inr)
  show ?thesis
  proof (cases c)
    case (ProcessPerformanceAnalysis rid ct pf)
    with Inr have "processPerformanceAnalysis chk s rid ct pf = Inr s'" by simp
    from processPerformanceAnalysis_Inr [OF this]
    obtain i p g sc where u: "\<not> isRevealed (performanceAlerts s (requestToPredictionId s rid))"
      and dec: "abi_decode_uint32x3 ct = Some (i, p, g)"
      and sc: "calculatePerformanceScore i p g = Inr sc"
      and s': "performanceAlerts s' = (performanceAlerts s)
                    (requestToPredictionId s rid :=
                       \<lparr>performanceScore = sc, alertLevel = determineAlertLevel sc,
                        needsRetraining = (sc < 60), isRevealed = True\<rparr>)"
      by auto
    from assms(2) have "pid = requestToPredictionId s rid"
      unfolding ex s' by (cases "pid = requestToPredictionId s rid") simp_all
    with u dec sc ProcessPerformanceAnalysis show ?thesis
      unfolding ex s' by simp
  next
    case (RecordEncryptedPrediction m i p g t)
    with Inr assms show ?thesis
      unfolding ex by (auto simp: entry_defs Let_def split: if_splits)
  next
    case (RequestPerformanceAnalysis x y)
    with Inr assms show ?thesis
      unfolding ex by (auto simp: entry_defs Let_def split: if_splits)
  next
    case (UpdateModelMetrics m a d e)
    with Inr assms show ?thesis
      unfolding ex by (auto simp: entry_defs Let_def split: if_splits)
  next
    case (RequestModelMetricsDecryption m r)
    with Inr assms show ?thesis
      unfolding ex by (auto simp: entry_defs Let_def split: if_splits)
  next
    case (DecryptModelMetrics r ct pf)
    with Inr have "s' = s" by (auto dest: decryptModelMetrics_Inr)
    with assms show ?thesis
      unfolding ex by simp
  qed
qed

text \<open>
  Claim C7. For the alert of a stored record (an identifier up to \<open>predictionCount\<close>):
  once it is revealed, no sequence of transactions changes any of its fields, so
  \<open>isRevealed\<close> never goes back to false; and the only transaction that changes it at
  all is the analysis callback of a request for that record, which finds it unrevealed
  and in that one step writes all four fields: the score computed from the decoded
  cleartexts, the level for that score, the retraining flag (score below 60), and
  \<open>isRevealed = True\<close>.
\<close>

theorem alert_state_write_once:
  assumes "pid \<le> predictionCount s"
  shows "(isRevealed (performanceAlerts s pid) \<longrightarrow>
            performanceAlerts (run chk s cs) pid = performanceAlerts s pid)
       \<and> (performanceAlerts (exec chk s c) pid \<noteq> performanceAlerts s pid \<longrightarrow>
            \<not> isRevealed (performanceAlerts s pid)
          \<and> isRevealed (performanceAlerts (exec chk s c) pid)
          \<and> (\<exists>rid ct pf input prediction groundTruth.
                c = ProcessPerformanceAnalysis rid ct pf
              \<and> requestToPredictionId s rid = pid
              \<and> abi_decode_uint32x3 ct = Some (input, prediction, groundTruth)
              \<and> uint (performanceScore (performanceAlerts (exec chk s c) pid)) =
                  100 - (\<bar>uint prediction - uint groundTruth\<bar> * 100) div max (uint input) 1
              \<and> alertLevel (performanceAlerts (exec chk s c) pid) =
                  (if uint (performanceScore (performanceAlerts (exec chk s c) pid)) < 50
                   then ''Critical''
                   else if uint (performanceScore (performanceAlerts (exec chk s c) pid)) < 70
                   then ''Warning''
                   else if uint (performanceScore (performanceAlerts (exec chk s c) pid)) < 85
                   then ''Notice''
                   else ''Normal'')
              \<and> needsRetraining (performanceAlerts (exec chk s c) pid) =
                  (uint (performanceScore (performanceAlerts (exec chk s c) pid)) < 60)))"
proof (intro conjI impI)
  assume "isRevealed (performanceAlerts s pid)"
  with assms show "performanceAlerts (run chk s cs) pid = performanceAlerts s pid"
    by (rule alerts_run_revealed)
next
  assume ch: "performanceAlerts (exec chk s c) pid \<noteq> performanceAlerts s pid"
  from alerts_exec_changed [OF assms ch]
  obtain rid ct pf i p g sc where u: "\<not> isRevealed (performanceAlerts s pid)"
    and c: "c = ProcessPerformanceAnalysis rid ct pf"
    and r: "requestToPredictionId s rid = pid"
    and dec: "abi_decode_uint32x3 ct = Some (i, p, g)"
    and sc: "calculatePerformanceScore i p g = Inr sc"
    and a: "performanceAlerts (exec chk s c) pid =
               \<lparr>performanceScore = sc, alertLevel = determineAlertLevel sc,
                needsRetraining = (sc < 60), isRevealed = True\<rparr>"
    by blast
  from u show "\<not> isRevealed (performanceAlerts s pid)" .
  from a show "isRevealed (performanceAlerts (exec chk s c) pid)" by simp
  from calculatePerformanceScore_Inr [OF sc]
  have f: "uint sc = 100 - (\<bar>uint p - uint g\<bar> * 100) div max (uint i) 1"
    by simp
  have l: "(sc < 60) = (uint sc < 60)"
    by (simp add: word_less_def)
  show "\<exists>rid ct pf input prediction groundTruth.
                c = ProcessPerformanceAnalysis rid ct pf
              \<and> requestToPredictionId s rid = pid
              \<and> abi_decode_uint32x3 ct = Some (input, prediction, groundTruth)
              \<and> uint (performanceScore (performanceAlerts (exec chk s c) pid)) =
                  100 - (\<bar>uint prediction - uint groundTruth\<bar> * 100) div max (uint input) 1
              \<and> alertLevel (performanceAlerts (exec chk s c) pid) =
                  (if uint (performanceScore (performanceAlerts (exec chk s c) pid)) < 50
                   then ''Critical''
                   else if uint (performanceScore (performanceAlerts (exec chk s c) pid)) < 70
                   then ''Warning''
                   else if uint (performanceScore (performanceAlerts (exec chk s c) pid)) < 85
                   then ''Notice''
                   else ''Normal'')
              \<and> needsRetraining (performanceAlerts (exec chk s c) pid) =
                  (uint (performanceScore (performanceAlerts (exec chk s c) pid)) < 60)"
    unfolding a
    by (intro exI [of _ rid] exI [of _ ct] exI [of _ pf] exI [of _ i] exI [of _ p] exI [of _ g])
       (simp add: c r dec f l determineAlertLevel_uint)
qed

theorem alert_state_write_once_witness:
  "performanceAlerts (run accept_all state_revealed trace_later) 1
     = performanceAlerts state_revealed 1
   \<and> performanceAlerts state_revealed 1 \<noteq> performanceAlerts state_pending 1
   \<and> \<not> isRevealed (performanceAlerts state_pending 1)
   \<and> isRevealed (performanceAlerts state_revealed 1)
   \<and> uint (performanceScore (performanceAlerts state_revealed 1)) = 98
   \<and> alertLevel (performanceAlerts state_revealed 1) = ''Normal''
   \<and> \<not> needsRetraining (performanceAlerts state_revealed 1)"
proof -
  have stored: "1 \<le> predictionCount state_revealed" "1 \<le> predictionCount state_pending"
    by (simp_all add: state_revealed_fields state_pending_fields)
  have r: "isRevealed (performanceAlerts state_revealed 1)"
    by (simp add: state_revealed_fields)
  have u: "\<not> isRevealed (performanceAlerts state_pending 1)"
    by (simp add: state_pending_fields zero_alert_def)
  from r u have ne: "performanceAlerts state_revealed 1 \<noteq> performanceAlerts state_pending 1"
    by auto
  from alert_state_write_once [OF stored(1), of accept_all trace_later] r
  have kept: "performanceAlerts (run accept_all state_revealed trace_later) 1
                = performanceAlerts state_revealed 1"
    by blast
  from alert_state_write_once [OF stored(2), of accept_all "[]"
      "ProcessPerformanceAnalysis 7 (encode3 100 90 92) []"] ne
  obtain i p g where dec: "abi_decode_uint32x3 (encode3 100 90 92) = Some (i, p, g)"
    and sc: "uint (performanceScore (performanceAlerts state_revealed 1)) =
               100 - (\<bar>uint p - uint g\<bar> * 100) div max (uint i) 1"
    and lv: "alertLevel (performanceAlerts state_revealed 1) =
               (if uint (performanceScore (performanceAlerts state_revealed 1)) < 50
                then ''Critical''
                else if uint (performanceScore (performanceAlerts state_revealed 1)) < 70
                then ''Warning''
                else if uint (performanceScore (performanceAlerts state_revealed 1)) < 85
                then ''Notice''
                else ''Normal'')"
    and nr: "needsRetraining (performanceAlerts state_revealed 1) =
               (uint (performanceScore (performanceAlerts state_revealed 1)) < 60)"
    unfolding state_revealed_def by auto
  from dec have "i = 100" "p = 90" "g = 92"
    by (simp_all add: abi_decode_encode3)
  with sc have v: "uint (performanceScore (performanceAlerts state_revealed 1)) = 98"
    by simp
  from lv nr have "alertLevel (performanceAlerts state_revealed 1) = ''Normal''"
    and "\<not> needsRetraining (performanceAlerts state_revealed 1)"
    unfolding v by simp_all
  with kept ne r u v show ?thesis by blast
qed

section \<open>Metrics decryption for the empty model identifier (C10)\<close>

lemma requestToModelId_exec:
  "\<forall>m. c = RequestModelMetricsDecryption m rid \<longrightarrow> m = [] \<Longrightarrow> requestToModelId s rid = [] \<Longrightarrow>
   requestToModelId (exec chk s c) rid = []"
  by (cases c) (auto simp: exec_def entry_defs Let_def split: sum.splits if_splits option.splits)

lemma requestToModelId_run:
  "\<forall>c\<in>set cs. \<forall>m. c = RequestModelMetricsDecryption m rid \<longrightarrow> m = [] \<Longrightarrow>
   requestToModelId s rid = [] \<Longrightarrow> requestToModelId (run chk s cs) rid = []"
  by (induction cs arbitrary: s) (simp_all add: run_Nil run_Cons requestToModelId_exec)

lemma decryptModelMetrics_empty:
  "requestToModelId s rid = [] \<Longrightarrow> decryptModelMetrics chk s rid ct pf = Inl UnknownRequest"
  by (simp add: decryptModelMetrics_def UnknownRequest_def Let_def)

text \<open>
  Claim C10. \<open>recordEncryptedPrediction\<close> (short of counter overflow) and
  \<open>requestModelMetricsDecryption\<close> accept the empty string as a model identifier. The
  metrics callback takes an empty stored identifier for a request that was never issued:
  for a request issued for the empty model, every callback fails with
  \<open>Invalid request\<close>, whatever the cleartexts and the proof, and keeps failing after any
  sequence of transactions in which the library gives that request identifier to no
  metrics request of a non-empty model.
\<close>

theorem empty_modelId_metrics_never_complete:
  "(predictionCount s + 1 < 2 ^ 256 \<longrightarrow>
      \<not> isl (recordEncryptedPrediction s [] input prediction groundTruth block_timestamp))
   \<and> \<not> isl (requestModelMetricsDecryption s [] reqId)
   \<and> decryptModelMetrics chk (exec chk s (RequestModelMetricsDecryption [] reqId))
        reqId cleartexts proof = Inl UnknownRequest
   \<and> ((\<forall>c\<in>set cs. \<forall>m. c = RequestModelMetricsDecryption m reqId \<longrightarrow> m = []) \<longrightarrow>
        decryptModelMetrics chk
          (run chk (exec chk s (RequestModelMetricsDecryption [] reqId)) cs)
          reqId cleartexts proof = Inl UnknownRequest)"
proof -
  have e: "requestToModelId (exec chk s (RequestModelMetricsDecryption [] reqId)) reqId = []"
    by (simp add: exec_def requestModelMetricsDecryption_def)
  have "\<not> isl (recordEncryptedPrediction s [] input prediction groundTruth block_timestamp)"
    if "predictionCount s + 1 < 2 ^ 256"
    using that by (simp add: recordEncryptedPrediction_def checked_add256_def Let_def)
  moreover have "\<not> isl (requestModelMetricsDecryption s [] reqId)"
    by (simp add: requestModelMetricsDecryption_def)
  ultimately show ?thesis
    using e by (simp add: decryptModelMetrics_empty requestToModelId_run)
qed

theorem empty_modelId_metrics_never_complete_witness:
  "\<not> isl (recordEncryptedPrediction deployed [] (InputHandle 1) (InputHandle 2) (InputHandle 3) 1000)
   \<and> decryptModelMetrics accept_all
       (run accept_all (exec accept_all deployed (RequestModelMetricsDecryption [] 9))
          [RecordEncryptedPrediction [] (InputHandle 1) (InputHandle 2) (InputHandle 3) 1000,
           RequestModelMetricsDecryption ''m1'' 10,
           DecryptModelMetrics 9 (encode3 1 2 3) [],
           RequestModelMetricsDecryption [] 9])
       9 (encode3 1 2 3) [] = Inl UnknownRequest"
  using empty_modelId_metrics_never_complete
    [of deployed "InputHandle 1" "InputHandle 2" "InputHandle 3" 1000 9 accept_all
        "encode3 1 2 3" "[]"
        "[RecordEncryptedPrediction [] (InputHandle 1) (InputHandle 2) (InputHandle 3) 1000,
          RequestModelMetricsDecryption ''m1'' 10,
          DecryptModelMetrics 9 (encode3 1 2 3) [],
          RequestModelMetricsDecryption [] 9]"]
  by (simp add: deployed_def)

section \<open>Submitting a record (C8)\<close>

lemma monitoredModels_exec: "set (monitoredModels s) \<subseteq> set (monitoredModels (exec chk s c))"
  by (cases c) (auto simp: exec_def entry_defs Let_def split: sum.splits if_splits option.splits)

lemma isModelMonitored_loop_iff: "isModelMonitored_loop xs m \<longleftrightarrow> m \<in> set xs"
  by (induction xs) (auto simp: keccak256_eq_def)

lemma isModelMonitored_iff: "isModelMonitored s m \<longleftrightarrow> m \<in> set (monitoredModels s)"
  by (simp add: isModelMonitored_def isModelMonitored_loop_iff)

lemma isModelMonitored_run: "isModelMonitored s m \<Longrightarrow> isModelMonitored (run chk s cs) m"
proof (induction cs arbitrary: s)
  case Nil
  then show ?case by (simp add: run_Nil)
next
  case (Cons c cs)
  from Cons.prems monitoredModels_exec [of s chk c] have "isModelMonitored (exec chk s c) m"
    by (auto simp: isModelMonitored_iff)
  then show ?case by (simp add: run_Cons Cons.IH)
qed

lemma predictionCount_run: "predictionCount s \<le> predictionCount (run chk s cs)"
proof (induction cs arbitrary: s)
  case Nil
  then show ?case by (simp add: run_Nil)
next
  case (Cons c cs)
  have "predictionCount s \<le> predictionCount (exec chk s c)"
    by (rule predictionCount_exec)
  also have "\<dots> \<le> predictionCount (run chk (exec chk s c) cs)"
    by (rule Cons.IH)
  finally show ?case by (simp add: run_Cons)
qed

lemma predictions_exec:
  "pid \<le> predictionCount s \<Longrightarrow> predictions (exec chk s c) pid = predictions s pid"
  by (cases c) (auto simp: exec_def entry_defs Let_def split: sum.splits if_splits option.splits)

lemma predictions_run:
  "pid \<le> predictionCount s \<Longrightarrow> predictions (run chk s cs) pid = predictions s pid"
proof (induction cs arbitrary: s)
  case Nil
  then show ?case by (simp add: run_Nil)
next
  case (Cons c cs)
  have "pid \<le> predictionCount (exec chk s c)"
    using Cons.prems predictionCount_exec [of s chk c] by simp
  then have "predictions (run chk (exec chk s c) cs) pid = predictions (exec chk s c) pid"
    by (rule Cons.IH)
  with Cons.prems show ?case by (simp add: run_Cons predictions_exec)
qed

lemma recordEncryptedPrediction_Inr:
  assumes "recordEncryptedPrediction s mid i p g t = Inr s'"
  shows "predictionCount s' = predictionCount s + 1"
    and "predictions s' (predictionCount s') =
           \<lparr>rec_id = predictionCount s', encryptedInput = i, encryptedPrediction = p,
            encryptedGroundTruth = g, timestamp = t, modelId = mid\<rparr>"
    and "performanceAlerts s' (predictionCount s') = zero_alert"
    and "events s' = events s @ [PredictionRecorded (predictionCount s') mid t]"
    and "isModelMonitored s' mid"
    and "\<not> isModelMonitored s mid \<Longrightarrow> monitoredModels s' = monitoredModels s @ [mid]"
    and "\<not> isModelMonitored s mid \<Longrightarrow> modelPerformance s' mid =
           \<lparr>encryptedAccuracy = FHE_asEuint32 0, encryptedDriftScore = FHE_asEuint32 0,
            encryptedErrorRate = FHE_asEuint32 0\<rparr>"
    and "isModelMonitored s mid \<Longrightarrow> monitoredModels s' = monitoredModels s"
    and "isModelMonitored s mid \<Longrightarrow> modelPerformance s' = modelPerformance s"
  using assms
  by (auto simp: recordEncryptedPrediction_def checked_add256_def Let_def zero_alert_def
      isModelMonitored_iff split: if_splits)

lemma recordEncryptedPrediction_succeeds:
  "predictionCount s + 1 < 2 ^ 256 \<Longrightarrow> \<exists>s'. recordEncryptedPrediction s mid i p g t = Inr s'"
  by (simp add: recordEncryptedPrediction_def checked_add256_def Let_def)

text \<open>
  Claim C8. Unless the 256-bit counter would overflow, \<open>recordEncryptedPrediction\<close>
  succeeds. It allocates the identifier \<open>predictionCount + 1\<close>, which is larger than
  every identifier allocated before and smaller than every one allocated later; stores
  the record under it, where no later sequence of transactions changes it; initialises
  the record's alert to unrevealed with zeroed fields; and, when the model identifier is
  not in the monitored list, appends it to the list and sets its aggregate to three
  trivial encryptions of 0 (when it is in the list, list and aggregates stay as they
  are). After the call the model is in the monitored list and \<open>isModelMonitored\<close>
  returns true for it, and both remain so after every sequence of transactions;
  \<open>isModelMonitored\<close> answers membership in the list, before the call and after.
\<close>

theorem submitRecord_effect:
  assumes "predictionCount s + 1 < 2 ^ 256"
  shows "\<exists>s'. recordEncryptedPrediction s mid input prediction groundTruth block_timestamp = Inr s'
     \<and> predictionCount s' = predictionCount s + 1
     \<and> predictions s' (predictionCount s') =
         \<lparr>rec_id = predictionCount s', encryptedInput = input, encryptedPrediction = prediction,
          encryptedGroundTruth = groundTruth, timestamp = block_timestamp, modelId = mid\<rparr>
     \<and> performanceAlerts s' (predictionCount s') =
         \<lparr>performanceScore = 0, alertLevel = [], needsRetraining = False, isRevealed = False\<rparr>
     \<and> events s' = events s @ [PredictionRecorded (predictionCount s') mid block_timestamp]
     \<and> (mid \<notin> set (monitoredModels s) \<longrightarrow>
          monitoredModels s' = monitoredModels s @ [mid]
        \<and> modelPerformance s' mid =
            \<lparr>encryptedAccuracy = TrivialEncrypt 0, encryptedDriftScore = TrivialEncrypt 0,
             encryptedErrorRate = TrivialEncrypt 0\<rparr>)
     \<and> (mid \<in> set (monitoredModels s) \<longrightarrow>
          monitoredModels s' = monitoredModels s \<and> modelPerformance s' = modelPerformance s)
     \<and> isModelMonitored s mid = (mid \<in> set (monitoredModels s))
     \<and> isModelMonitored s' other = (other \<in> set (monitoredModels s'))
     \<and> predictions (run chk s' cs) (predictionCount s') = predictions s' (predictionCount s')
     \<and> mid \<in> set (monitoredModels (run chk s' cs))
     \<and> isModelMonitored (run chk s' cs) mid
     \<and> (\<forall>mid' i' p' g' t' s''.
          recordEncryptedPrediction (run chk s' cs) mid' i' p' g' t' = Inr s'' \<longrightarrow>
            predictionCount s' < predictionCount s'')"
proof -
  from recordEncryptedPrediction_succeeds [OF assms]
  obtain s' where ok: "recordEncryptedPrediction s mid input prediction groundTruth block_timestamp = Inr s'"
    by blast
  note f = recordEncryptedPrediction_Inr [OF ok]
  have later: "predictionCount s' < predictionCount s''"
    if "recordEncryptedPrediction (run chk s' cs) mid' i' p' g' t' = Inr s''"
    for mid' i' p' g' t' s''
    using recordEncryptedPrediction_Inr(1) [OF that] predictionCount_run [of s' chk cs]
    by simp
  have kept: "predictions (run chk s' cs) (predictionCount s') = predictions s' (predictionCount s')"
    by (simp add: predictions_run)
  have mon: "isModelMonitored (run chk s' cs) mid"
    using f(5) by (rule isModelMonitored_run)
  then have mem: "mid \<in> set (monitoredModels (run chk s' cs))"
    by (simp add: isModelMonitored_iff)
  have new: "monitoredModels s' = monitoredModels s @ [mid]
        \<and> modelPerformance s' mid =
            \<lparr>encryptedAccuracy = TrivialEncrypt 0, encryptedDriftScore = TrivialEncrypt 0,
             encryptedErrorRate = TrivialEncrypt 0\<rparr>"
    if "mid \<notin> set (monitoredModels s)"
    using that f(6,7) by (simp add: isModelMonitored_iff FHE_asEuint32_def)
  have old: "monitoredModels s' = monitoredModels s \<and> modelPerformance s' = modelPerformance s"
    if "mid \<in> set (monitoredModels s)"
    using that f(8,9) by (simp add: isModelMonitored_iff)
  have q: "isModelMonitored s mid = (mid \<in> set (monitoredModels s))"
    "isModelMonitored s' other = (other \<in> set (monitoredModels s'))"
    by (simp_all add: isModelMonitored_iff)
  have alert: "performanceAlerts s' (predictionCount s') =
         \<lparr>performanceScore = 0, alertLevel = [], needsRetraining = False, isRevealed = False\<rparr>"
    using f(3) by (simp add: zero_alert_def)
  show ?thesis
    apply (rule exI [of _ s'])
    apply (intro conjI impI allI)
    using ok f(1,2,4) alert new old q kept mem mon later
    apply blast+
    done
qed

theorem submitRecord_effect_witness:
  "monitoredModels (exec accept_all deployed call_first) = [''m1'']
   \<and> predictionCount (run accept_all deployed [call_first, call_second]) = 2
   \<and> modelId (predictions (run accept_all deployed [call_first, call_second]) 2) = ''m2''
   \<and> \<not> isRevealed (performanceAlerts (run accept_all deployed [call_first, call_second]) 2)
   \<and> monitoredModels (run accept_all deployed [call_first, call_second]) = [''m1'', ''m2'']
   \<and> encryptedAccuracy
        (modelPerformance (run accept_all deployed [call_first, call_second]) ''m2'')
       = TrivialEncrypt 0
   \<and> predictions (run accept_all (run accept_all deployed [call_first, call_second]) trace_other) 2
       = predictions (run accept_all deployed [call_first, call_second]) 2
   \<and> isModelMonitored
        (run accept_all (run accept_all deployed [call_first, call_second]) trace_other) ''m2''"
proof -
  define s1 where "s1 = exec accept_all deployed call_first"
  define s2 where "s2 = exec accept_all s1 call_second"
  have r2: "run accept_all deployed [call_first, call_second] = s2"
    by (simp add: run_Cons run_Nil s1_def s2_def)
  have room: "predictionCount deployed + 1 < 2 ^ 256"
    by (simp add: deployed_def)
  from submitRecord_effect [OF room, of "''m1''" "InputHandle 1" "InputHandle 2" "InputHandle 3"
      1000 "''m1''" accept_all "[]"]
  obtain t where ok1: "recordEncryptedPrediction deployed ''m1'' (InputHandle 1) (InputHandle 2)
        (InputHandle 3) 1000 = Inr t"
    and c1: "predictionCount t = predictionCount deployed + 1"
    and m1: "''m1'' \<notin> set (monitoredModels deployed) \<longrightarrow>
               monitoredModels t = monitoredModels deployed @ [''m1'']"
    by blast
  from ok1 have e1: "s1 = t"
    by (simp add: exec_def call_first_def s1_def)
  have cnt1: "predictionCount s1 = 1" and mm1: "monitoredModels s1 = [''m1'']"
    using c1 m1 unfolding e1 by (simp_all add: deployed_def)
  have room2: "predictionCount s1 + 1 < 2 ^ 256"
    by (simp add: cnt1)
  from submitRecord_effect [OF room2, of "''m2''" "InputHandle 4" "InputHandle 5" "InputHandle 6"
      2000 "''m2''" accept_all trace_other]
  obtain t2 where ok2: "recordEncryptedPrediction s1 ''m2'' (InputHandle 4) (InputHandle 5)
        (InputHandle 6) 2000 = Inr t2"
    and f: "predictionCount t2 = predictionCount s1 + 1"
      "predictions t2 (predictionCount t2) =
         \<lparr>rec_id = predictionCount t2, encryptedInput = InputHandle 4,
          encryptedPrediction = InputHandle 5, encryptedGroundTruth = InputHandle 6,
          timestamp = 2000, modelId = ''m2''\<rparr>"
      "performanceAlerts t2 (predictionCount t2) =
         \<lparr>performanceScore = 0, alertLevel = [], needsRetraining = False, isRevealed = False\<rparr>"
      "''m2'' \<notin> set (monitoredModels s1) \<longrightarrow>
          monitoredModels t2 = monitoredModels s1 @ [''m2'']
        \<and> modelPerformance t2 ''m2'' =
            \<lparr>encryptedAccuracy = TrivialEncrypt 0, encryptedDriftScore = TrivialEncrypt 0,
             encryptedErrorRate = TrivialEncrypt 0\<rparr>"
      "predictions (run accept_all t2 trace_other) (predictionCount t2)
         = predictions t2 (predictionCount t2)"
      "isModelMonitored (run accept_all t2 trace_other) ''m2''"
    by blast
  from ok2 have e2: "s2 = t2"
    by (simp add: exec_def call_second_def s2_def)
  have cnt2: "predictionCount t2 = 2"
    using f(1) by (simp add: cnt1)
  from f mm1 have "predictionCount s2 = 2
     \<and> modelId (predictions s2 2) = ''m2''
     \<and> \<not> isRevealed (performanceAlerts s2 2)
     \<and> monitoredModels s2 = [''m1'', ''m2'']
     \<and> encryptedAccuracy (modelPerformance s2 ''m2'') = TrivialEncrypt 0
     \<and> predictions (run accept_all s2 trace_other) 2 = predictions s2 2
     \<and> isModelMonitored (run accept_all s2 trace_other) ''m2''"
    unfolding e2 cnt2 by simp
  with mm1 show ?thesis
    unfolding r2 s1_def by simp
qed

end
